theory Spec2Isabelle
  imports Complex_Main
begin

section \<open>Python values\<close>

text \<open>
  The client of \<^verbatim>\<open>custom_components/nrg_gyms/client.py\<close> works on what
  \<^verbatim>\<open>resp.json()\<close> returns: Python values built from \<^verbatim>\<open>None\<close>, booleans,
  integers, floats, strings, lists and dictionaries. A dictionary is kept as the list of
  its items in insertion order (\<^verbatim>\<open>list(data.values())\<close> depends on that order); a
  float is a rational, an infinity or NaN, which is all that truthiness and \<^verbatim>\<open>int()\<close>
  look at.
\<close>

datatype pyfloat = Fin rat | Inf bool | NaN

datatype json =
    JNull
  | JBool bool
  | JInt int
  | JFloat pyfloat
  | JStr string
  | JList "json list"
  | JObj "(string \<times> json) list"

datatype error = AttributeError | TypeError

text \<open>A \<^verbatim>\<open>datetime\<close>: its clock reading in microseconds counted from
  1970-01-01T00:00:00 on its own clock, and its UTC offset in seconds when it is aware
  (\<^verbatim>\<open>tzinfo is None\<close> is \<open>None\<close>).\<close>

record datetime =
  micros :: int
  tzinfo :: "int option"

text \<open>
  The standard-library functions the client calls and whose grammar is not the client's:
  \<^verbatim>\<open>datetime.fromisoformat\<close> (\<open>None\<close> when it raises), \<^verbatim>\<open>int\<close> on a string
  (\<open>None\<close> when it raises) and \<^verbatim>\<open>str\<close> on a value that is not a string. They are
  parameters of the model: every theorem holds for every such library.
\<close>

record pylib =
  fromisoformat :: "string \<Rightarrow> datetime option"
  int_of_str :: "string \<Rightarrow> int option"
  str_of :: "json \<Rightarrow> string"

fun truthy :: "json \<Rightarrow> bool" where
  "truthy JNull = False"
| "truthy (JBool b) = b"
| "truthy (JInt i) = (i \<noteq> 0)"
| "truthy (JFloat (Fin q)) = (q \<noteq> 0)"
| "truthy (JFloat (Inf s)) = True"
| "truthy (JFloat NaN) = True"
| "truthy (JStr s) = (s \<noteq> [])"
| "truthy (JList xs) = (xs \<noteq> [])"
| "truthy (JObj d) = (d \<noteq> [])"

text \<open>\<^verbatim>\<open>a or b\<close>.\<close>

definition py_or :: "json \<Rightarrow> json \<Rightarrow> json" where
  "py_or a b = (if truthy a then a else b)"

text \<open>\<^verbatim>\<open>d.get(k)\<close> on a dictionary, and \<^verbatim>\<open>k in d\<close>.\<close>

definition dget :: "(string \<times> json) list \<Rightarrow> string \<Rightarrow> json" where
  "dget d k = (case map_of d k of None \<Rightarrow> JNull | Some v \<Rightarrow> v)"

definition has_key :: "(string \<times> json) list \<Rightarrow> string \<Rightarrow> bool" where
  "has_key d k = (map_of d k \<noteq> None)"

text \<open>\<^verbatim>\<open>x.get(k)\<close> on any value: only a dictionary has the attribute.\<close>

fun py_get :: "json \<Rightarrow> string \<Rightarrow> error + json" where
  "py_get (JObj d) k = Inr (dget d k)"
| "py_get _ k = Inl AttributeError"

text \<open>\<^verbatim>\<open>isinstance(x, list)\<close> and \<^verbatim>\<open>isinstance(x, dict)\<close>.\<close>

fun is_list :: "json \<Rightarrow> bool" where
  "is_list (JList xs) = True"
| "is_list _ = False"

fun is_dict :: "json \<Rightarrow> bool" where
  "is_dict (JObj d) = True"
| "is_dict _ = False"

fun list_items :: "json \<Rightarrow> json list" where
  "list_items (JList xs) = xs"
| "list_items _ = []"

text \<open>\<^verbatim>\<open>str(x)\<close>: a string is itself.\<close>

fun py_str :: "pylib \<Rightarrow> json \<Rightarrow> string" where
  "py_str L (JStr s) = s"
| "py_str L v = str_of L v"

text \<open>\<^verbatim>\<open>int(x)\<close>, \<open>None\<close> when it raises (TypeError on \<^verbatim>\<open>None\<close>, a list or a
  dictionary, OverflowError on an infinity, ValueError on NaN or a string that is not an
  integer literal). A finite float is truncated towards zero.\<close>

fun py_int :: "pylib \<Rightarrow> json \<Rightarrow> int option" where
  "py_int L JNull = None"
| "py_int L (JBool b) = Some (if b then 1 else 0)"
| "py_int L (JInt i) = Some i"
| "py_int L (JFloat (Fin q)) = Some (if 0 \<le> q then \<lfloor>q\<rfloor> else \<lceil>q\<rceil>)"
| "py_int L (JFloat (Inf s)) = None"
| "py_int L (JFloat NaN) = None"
| "py_int L (JStr s) = int_of_str L s"
| "py_int L (JList xs) = None"
| "py_int L (JObj d) = None"

text \<open>\<^verbatim>\<open>s.replace("Z", "+00:00")\<close>.\<close>

fun replace_Z :: "string \<Rightarrow> string" where
  "replace_Z [] = []"
| "replace_Z (c # cs) = (if c = CHR ''Z'' then ''+00:00'' @ replace_Z cs else c # replace_Z cs)"

text \<open>
  \<^verbatim>\<open>datetime.fromtimestamp(t, tz=timezone.utc)\<close>: the aware instant \<open>t\<close> seconds after
  the epoch, and an exception (\<open>None\<close>) outside the years 1 to 9999. The client passes an
  integer or an integer divided by 1000, so \<open>t * 1000000\<close> is a whole number of
  microseconds and no rounding takes place; the inexactness of float division is not
  part of the model.
\<close>

definition fromtimestamp_utc :: "rat \<Rightarrow> datetime option" where
  "fromtimestamp_utc t =
     (if - 62135596800 \<le> t \<and> t < 253402300800
      then Some \<lparr>micros = round (t * 1000000), tzinfo = Some 0\<rparr>
      else None)"

section \<open>The temporal parser\<close>

text \<open>\<^verbatim>\<open>_parse_dt\<close>: the falsy guard, the ISO attempt, then the epoch attempt.\<close>

definition parse_dt :: "pylib \<Rightarrow> json \<Rightarrow> datetime option" where
  "parse_dt L v =
     (if \<not> truthy v then None
      else case fromisoformat L (replace_Z (py_str L v)) of
        Some dt \<Rightarrow> Some (if tzinfo dt = None then dt\<lparr>tzinfo := Some 0\<rparr> else dt)
      | None \<Rightarrow>
          (case py_int L v of
             None \<Rightarrow> None
           | Some val \<Rightarrow>
               if val > 10000000000 then fromtimestamp_utc (of_int val / 1000)
               else fromtimestamp_utc (of_int val)))"

section \<open>The booking mapper\<close>

record booking =
  summary :: json
  start :: "datetime option"
  endt :: "datetime option"
  location :: json
  description :: "string option"

text \<open>\<^verbatim>\<open>"; ".join(parts)\<close>.\<close>

fun join_semi :: "string list \<Rightarrow> string" where
  "join_semi [] = []"
| "join_semi [p] = p"
| "join_semi (p # q # ps) = p @ ''; '' @ join_semi (q # ps)"

text \<open>The body of \<^verbatim>\<open>_normalize_booking\<close> on a dictionary, up to the first
  \<^verbatim>\<open>return\<close> (the statements after it are never reached).\<close>

definition booking_fields :: "pylib \<Rightarrow> (string \<times> json) list \<Rightarrow> booking" where
  "booking_fields L item =
     (let title = py_or (dget item ''Title'') (py_or (dget item ''ClassName'')
                    (py_or (dget item ''Name'') (JStr ''Booking'')));
          start = parse_dt L (py_or (dget item ''StartTimeUtc'') (py_or (dget item ''StartTime'')
                    (py_or (dget item ''Start'') (dget item ''StartDate''))));
          end_dt = parse_dt L (py_or (dget item ''EndTime'') (py_or (dget item ''End'')
                    (dget item ''EndDate'')));
          location = py_or (dget item ''Club'') (py_or (dget item ''Zone'')
                    (py_or (dget item ''Location'') (dget item ''ClubName'')));
          coach = py_or (dget item ''TrainerDisplayName'') (py_or (dget item ''Coach'')
                    (dget item ''Instructor''));
          description_parts =
            (if truthy coach then [''Coach: '' @ py_str L coach] else [])
            @ (if truthy (dget item ''Status'')
               then [''Status: '' @ py_str L (dget item ''Status'')] else [])
            @ (if truthy (dget item ''Type'')
               then [''Type: '' @ py_str L (dget item ''Type'')] else [])
            @ (if truthy (dget item ''ClassBookingId'')
               then [''ClassBookingId: '' @ py_str L (dget item ''ClassBookingId'')]
               else if truthy (dget item ''BookingId'')
               then [''BookingId: '' @ py_str L (dget item ''BookingId'')] else []);
          description = (if description_parts \<noteq> [] then Some (join_semi description_parts)
                         else None)
      in \<lparr>summary = title, start = start, endt = end_dt, location = location,
           description = description\<rparr>)"

text \<open>\<^verbatim>\<open>_normalize_booking\<close>. Every field is read with \<^verbatim>\<open>item.get\<close>, so an item that
  is not a dictionary raises AttributeError at the first read.\<close>

fun normalize_booking :: "pylib \<Rightarrow> json \<Rightarrow> error + booking" where
  "normalize_booking L (JObj item) = Inr (booking_fields L item)"
| "normalize_booking L _ = Inl AttributeError"

section \<open>Strings\<close>

text \<open>\<^verbatim>\<open>sub in s\<close> on strings.\<close>

fun contains :: "string \<Rightarrow> string \<Rightarrow> bool" where
  "contains sub [] = (sub = [])"
| "contains sub (c # cs) = (take (length sub) (c # cs) = sub \<or> contains sub cs)"

text \<open>\<^verbatim>\<open>s.lower()\<close>, on the ASCII letters.\<close>

definition lower_char :: "char \<Rightarrow> char" where
  "lower_char c =
     (case map_of (zip ''ABCDEFGHIJKLMNOPQRSTUVWXYZ'' ''abcdefghijklmnopqrstuvwxyz'') c of
        Some l \<Rightarrow> l
      | None \<Rightarrow> c)"

definition lower :: "string \<Rightarrow> string" where
  "lower s = map lower_char s"

text \<open>\<^verbatim>\<open>str(i)\<close> of an integer, as the f-string of the calendar hash formats it.\<close>

definition digit_char :: "nat \<Rightarrow> char" where
  "digit_char n = ''0123456789'' ! n"

fun dec_nat :: "nat \<Rightarrow> string" where
  "dec_nat n =
     (if n < 10 then [digit_char n] else dec_nat (n div 10) @ [digit_char (n mod 10)])"

definition str_int :: "int \<Rightarrow> string" where
  "str_int i = (if i < 0 then CHR ''-'' # dec_nat (nat (- i)) else dec_nat (nat i))"

section \<open>The portal\<close>

text \<open>
  One HTTP exchange of the session. A request is what the client chooses: the method, the
  URL, the headers passed for this request and the body. A response is a transport
  failure (\<^verbatim>\<open>session.get\<close> or \<^verbatim>\<open>session.post\<close> raises) or a status code with the
  body as \<^verbatim>\<open>resp.json()\<close> reads it (\<open>None\<close> when \<^verbatim>\<open>resp.json()\<close> raises).
  The portal is any function from the requests sent so far and the present request to a
  response, so it may keep state, and the session's cookies and default headers, which
  the portal sets and reads, are part of it. Every operation takes the requests sent so
  far and returns them extended by its own.
\<close>

datatype http_method = GET | POST

record request =
  http_method :: http_method
  target :: string
  headers :: "(string \<times> string) list"
  body :: "json option"

datatype response = TransportError | Response int "json option"

type_synonym server = "request list \<Rightarrow> request \<Rightarrow> response"

definition BASE_URL :: string where
  "BASE_URL = ''https://nrggym.perfectgym.com''"

definition OCCUPANCY_PATH :: string where
  "OCCUPANCY_PATH = ''/clientportal2/Clubs/Clubs/GetMembersInClubs''"

definition IDENTITY_PATH :: string where
  "IDENTITY_PATH = ''/clientportal2/Auth/Login/Identity''"

definition CONTRACTS_PATH :: string where
  "CONTRACTS_PATH = ''/clientportal2/Profile/Contracts/ContractList''"

definition BOOKINGS_CANDIDATE_PATHS :: "string list" where
  "BOOKINGS_CANDIDATE_PATHS =
     [''/clientportal2/MyCalendar/MyCalendar/GetCalendar'',
      ''/clientportal2/Booking/GetUpcomingBookings'',
      ''/clientportal2/Booking/GetFutureBookings'',
      ''/clientportal2/Bookings/GetUpcoming'',
      ''/clientportal2/ClassBooking/GetUpcoming'',
      ''/clientportal2/Calendar/GetMyBookings'']"

text \<open>The fields of \<^verbatim>\<open>PerfectGymClient\<close> that the fetch operations read.\<close>

record client =
  bookings_path_override :: "string option"
  club_id :: "int option"

text \<open>The clock readings of one call of \<^verbatim>\<open>fetch_upcoming_bookings\<close>:
  \<^verbatim>\<open>now.isoformat()\<close>, \<^verbatim>\<open>horizon.isoformat()\<close> and \<^verbatim>\<open>now.date().isoformat()\<close>.\<close>

record clock =
  now_iso :: string
  horizon_iso :: string
  date_str :: string

section \<open>The shape normalizer\<close>

text \<open>The first loop of \<^verbatim>\<open>_try_endpoint\<close>: the first key, in the order given, that is
  in the dictionary with a list as its value.\<close>

fun first_list_key :: "(string \<times> json) list \<Rightarrow> string list \<Rightarrow> json list option" where
  "first_list_key data [] = None"
| "first_list_key data (key # keys) =
     (if has_key data key \<and> is_list (dget data key) then Some (list_items (dget data key))
      else first_list_key data keys)"

text \<open>The second loop: \<^verbatim>\<open>items\<close> extended by the \<^verbatim>\<open>Items\<close> list of every section
  that is a dictionary holding one.\<close>

fun section_items :: "(string \<times> json) list \<Rightarrow> string list \<Rightarrow> json list" where
  "section_items data [] = []"
| "section_items data (section # sections) =
     (case dget data section of
        JObj sec \<Rightarrow> (if is_list (dget sec ''Items'') then list_items (dget sec ''Items'') else [])
      | _ \<Rightarrow> [])
     @ section_items data sections"

text \<open>Lines 93 to 112 of \<^verbatim>\<open>_try_endpoint\<close>: what is returned for the decoded body.\<close>

fun extract_items :: "json \<Rightarrow> json list option" where
  "extract_items (JObj data) =
     (case first_list_key data [''Bookings'', ''Items'', ''Data'', ''Result'', ''results''] of
        Some xs \<Rightarrow> Some xs
      | None \<Rightarrow>
          (let items = section_items data [''RecentItems'', ''FutureItems'', ''PastItems'']
           in if items \<noteq> [] then Some items
              else if has_key data ''Start'' \<or> has_key data ''StartDate''
                      \<or> has_key data ''StartTime''
              then Some [JObj data]
              else None))"
| "extract_items (JList xs) = Some xs"
| "extract_items _ = None"

section \<open>The endpoint prober\<close>

text \<open>The request of \<^verbatim>\<open>_try_endpoint\<close>: a GET of the path with the extra headers.\<close>

definition endpoint_request :: "string \<Rightarrow> (string \<times> string) list \<Rightarrow> request" where
  "endpoint_request path extra_headers =
     \<lparr>http_method = GET, target = BASE_URL @ path, headers = extra_headers, body = None\<rparr>"

definition try_endpoint ::
  "server \<Rightarrow> request list \<Rightarrow> string \<Rightarrow> (string \<times> string) list
     \<Rightarrow> json list option \<times> request list" where
  "try_endpoint srv tr path extra_headers =
     (let rq = endpoint_request path extra_headers
      in (case srv tr rq of
            TransportError \<Rightarrow> None
          | Response status_code js \<Rightarrow>
              (if status_code \<noteq> 200 then None
               else case js of None \<Rightarrow> None | Some data \<Rightarrow> extract_items data),
          tr @ [rq]))"

text \<open>A list comprehension over a function that may raise: the first exception ends it.\<close>

fun traverse :: "('a \<Rightarrow> error + 'b) \<Rightarrow> 'a list \<Rightarrow> error + 'b list" where
  "traverse f [] = Inr []"
| "traverse f (x # xs) =
     (case f x of
        Inl e \<Rightarrow> Inl e
      | Inr y \<Rightarrow> (case traverse f xs of Inl e \<Rightarrow> Inl e | Inr ys \<Rightarrow> Inr (y # ys)))"

text \<open>The two comprehensions run on a truthy \<^verbatim>\<open>bookings\<close>: normalize every item, then
  keep the bookings whose \<^verbatim>\<open>start\<close> is truthy (a \<^verbatim>\<open>datetime\<close> always is).\<close>

definition normalize_all :: "pylib \<Rightarrow> json list \<Rightarrow> error + booking list" where
  "normalize_all L bookings =
     (case traverse (normalize_booking L) bookings of
        Inl e \<Rightarrow> Inl e
      | Inr normalized \<Rightarrow> Inr (filter (\<lambda>b. start b \<noteq> None) normalized))"

text \<open>The value of \<^verbatim>\<open>bookings\<close> under \<^verbatim>\<open>if bookings:\<close>: \<^verbatim>\<open>None\<close> and the empty list
  are both falsy.\<close>

fun bookings_of :: "json list option \<Rightarrow> json list" where
  "bookings_of None = []"
| "bookings_of (Some xs) = xs"

definition calendar_like :: "string \<Rightarrow> bool" where
  "calendar_like path = (contains ''calendar'' (lower path) \<or> contains ''schedule'' (lower path))"

definition ranged_path :: "clock \<Rightarrow> string \<Rightarrow> string" where
  "ranged_path clk path = path @ ''?start='' @ now_iso clk @ ''&end='' @ horizon_iso clk"

definition extra_headers_for :: "client \<Rightarrow> clock \<Rightarrow> string \<Rightarrow> (string \<times> string) list" where
  "extra_headers_for c clk path =
     (if contains ''/MyCalendar/MyCalendar/GetCalendar'' path
      then [(''X-Hash'', ''#/Classes/''
              @ str_int (case club_id c of None \<Rightarrow> 5 | Some i \<Rightarrow> if i \<noteq> 0 then i else 5)
              @ ''/Calendar?date='' @ date_str clk)]
      else [])"

text \<open>The \<^verbatim>\<open>for path in paths\<close> loop of \<^verbatim>\<open>fetch_upcoming_bookings\<close>. The result is
  the list returned, or the exception that leaves the operation.\<close>

fun bookings_loop ::
  "pylib \<Rightarrow> server \<Rightarrow> client \<Rightarrow> clock \<Rightarrow> string list \<Rightarrow> request list
     \<Rightarrow> (error + booking list) \<times> request list" where
  "bookings_loop L srv c clk [] tr = (Inr [], tr)"
| "bookings_loop L srv c clk (path # paths) tr =
     (let extra_headers = extra_headers_for c clk path;
          ranged = (if calendar_like path
                    then try_endpoint srv tr (ranged_path clk path) extra_headers
                    else (None, tr))
      in if bookings_of (fst ranged) \<noteq> []
         then (normalize_all L (bookings_of (fst ranged)), snd ranged)
         else (let plain = try_endpoint srv (snd ranged) path extra_headers
               in if bookings_of (fst plain) \<noteq> []
                  then (normalize_all L (bookings_of (fst plain)), snd plain)
                  else bookings_loop L srv c clk paths (snd plain)))"

definition candidate_paths :: "client \<Rightarrow> string list" where
  "candidate_paths c =
     (case bookings_path_override c of
        None \<Rightarrow> []
      | Some p \<Rightarrow> if p \<noteq> [] then [p] else [])
     @ BOOKINGS_CANDIDATE_PATHS"

definition fetch_upcoming_bookings ::
  "pylib \<Rightarrow> server \<Rightarrow> client \<Rightarrow> clock \<Rightarrow> request list
     \<Rightarrow> (error + booking list) \<times> request list" where
  "fetch_upcoming_bookings L srv c clk tr = bookings_loop L srv c clk (candidate_paths c) tr"

section \<open>Club occupancy\<close>

record club_entry =
  club_name :: json
  members :: int
  club_ident :: json

text \<open>The choice of \<^verbatim>\<open>clubs_raw\<close> in \<^verbatim>\<open>fetch_members_in_clubs\<close>.\<close>

definition clubs_raw_of :: "json \<Rightarrow> json list" where
  "clubs_raw_of data =
     (case data of
        JObj d \<Rightarrow>
          (let users = (if has_key d ''UsersInClubList'' \<and> is_list (dget d ''UsersInClubList'')
                        then list_items (dget d ''UsersInClubList'') else []);
               keyed = (case first_list_key d [''Clubs'', ''Items'', ''Data'', ''Result'', ''results'']
                        of Some xs \<Rightarrow> xs | None \<Rightarrow> users)
           in if keyed = [] \<and> is_dict (dget d ''0'') then map snd d else keyed)
      | JList xs \<Rightarrow> xs
      | _ \<Rightarrow> [])"

text \<open>\<^verbatim>\<open>int(count) if count is not None else 0\<close> inside its own \<^verbatim>\<open>try\<close>: any
  exception gives 0.\<close>

definition count_of :: "pylib \<Rightarrow> json \<Rightarrow> int" where
  "count_of L count =
     (if count \<noteq> JNull then (case py_int L count of Some n \<Rightarrow> n | None \<Rightarrow> 0) else 0)"

text \<open>One round of the \<^verbatim>\<open>for c in clubs_raw\<close> loop on a dictionary: the value of
  \<^verbatim>\<open>count\<close> before conversion, and the entry appended to \<^verbatim>\<open>clubs\<close>.\<close>

definition raw_count :: "(string \<times> json) list \<Rightarrow> json" where
  "raw_count c =
     py_or (dget c ''UsersCountCurrentlyInClub'')
       (py_or (dget c ''MembersInClubCount'') (py_or (dget c ''Count'')
         (py_or (dget c ''members'') (dget c ''value''))))"

definition club_fields :: "pylib \<Rightarrow> (string \<times> json) list \<Rightarrow> club_entry" where
  "club_fields L c =
     (let name = py_or (dget c ''ClubName'') (py_or (dget c ''Name'') (py_or (dget c ''Club'')
                   (py_or (dget c ''name'') (JStr ''Club''))));
          count = count_of L (raw_count c)
      in \<lparr>club_name = name, members = count,
           club_ident = py_or (dget c ''ClubId'') (py_or (dget c ''Id'') (dget c ''id''))\<rparr>)"

text \<open>The loop, with \<^verbatim>\<open>clubs\<close> and \<^verbatim>\<open>total\<close> (here \<open>tot\<close>) as they grow. An entry
  that is not a dictionary raises at its first \<^verbatim>\<open>c.get\<close>.\<close>

fun occupancy_loop ::
  "pylib \<Rightarrow> json list \<Rightarrow> club_entry list \<Rightarrow> int \<Rightarrow> error + (club_entry list \<times> int)" where
  "occupancy_loop L [] clubs tot = Inr (clubs, tot)"
| "occupancy_loop L (JObj c # cs) clubs tot =
     occupancy_loop L cs (clubs @ [club_fields L c]) (tot + members (club_fields L c))"
| "occupancy_loop L (_ # cs) clubs tot = Inl AttributeError"

record occupancy =
  clubs :: "club_entry list"
  total :: int

text \<open>The request of \<^verbatim>\<open>fetch_members_in_clubs\<close>: a POST with an empty body.\<close>

definition occupancy_request :: request where
  "occupancy_request =
     \<lparr>http_method = POST, target = BASE_URL @ OCCUPANCY_PATH,
      headers = [(''X-Hash'', ''#/Clubs/MembersInClubs'')], body = None\<rparr>"

definition fetch_members_in_clubs ::
  "pylib \<Rightarrow> server \<Rightarrow> request list \<Rightarrow> occupancy \<times> request list" where
  "fetch_members_in_clubs L srv tr =
     (let rq = occupancy_request
      in (case srv tr rq of
            TransportError \<Rightarrow> \<lparr>clubs = [], total = 0\<rparr>
          | Response status_code js \<Rightarrow>
              (if status_code \<noteq> 200 then \<lparr>clubs = [], total = 0\<rparr>
               else case js of
                 None \<Rightarrow> \<lparr>clubs = [], total = 0\<rparr>
               | Some data \<Rightarrow>
                   (case occupancy_loop L (clubs_raw_of data) [] 0 of
                      Inl e \<Rightarrow> \<lparr>clubs = [], total = 0\<rparr>
                    | Inr (cl, tot) \<Rightarrow> \<lparr>clubs = cl, total = tot\<rparr>)),
          tr @ [rq]))"

section \<open>Identity and contracts\<close>

record identity =
  user_id :: json
  first_name :: json
  last_name :: json
  email :: json
  home_club_id :: json
  default_club_id :: json
  member_type :: json
  photo_url :: json

text \<open>The \<^verbatim>\<open>try\<close> body of \<^verbatim>\<open>fetch_identity\<close> after \<^verbatim>\<open>resp.json()\<close>.\<close>

definition normalize_identity :: "json \<Rightarrow> error + identity" where
  "normalize_identity data =
     (case py_get (py_or data (JObj [])) ''Member'' of
        Inl e \<Rightarrow> Inl e
      | Inr m \<Rightarrow>
          (case py_or m (JObj []) of
             JObj member \<Rightarrow>
               Inr \<lparr>user_id = dget member ''Id'', first_name = dget member ''FirstName'',
                    last_name = dget member ''LastName'', email = dget member ''Email'',
                    home_club_id = dget member ''HomeClubId'',
                    default_club_id = dget member ''DefaultClubId'',
                    member_type = dget member ''Type'', photo_url = dget member ''PhotoUrl''\<rparr>
           | _ \<Rightarrow> Inl AttributeError))"

text \<open>\<^verbatim>\<open>fetch_identity\<close>; the empty dictionary it returns on failure is \<open>None\<close>.\<close>

definition identity_request :: request where
  "identity_request =
     \<lparr>http_method = POST, target = BASE_URL @ IDENTITY_PATH, headers = [], body = None\<rparr>"

definition fetch_identity :: "server \<Rightarrow> request list \<Rightarrow> identity option \<times> request list" where
  "fetch_identity srv tr =
     (let rq = identity_request
      in (case srv tr rq of
            TransportError \<Rightarrow> None
          | Response status_code js \<Rightarrow>
              (if status_code \<noteq> 200 then None
               else case js of
                 None \<Rightarrow> None
               | Some data \<Rightarrow>
                   (case normalize_identity data of Inl e \<Rightarrow> None | Inr i \<Rightarrow> Some i)),
          tr @ [rq]))"

record contract =
  contract_id :: json
  contract_name :: json
  addons :: json
  contract_club_id :: json
  contract_club_name :: json
  start_date :: "datetime option"
  end_date :: "datetime option"
  commitment_date :: "datetime option"
  next_payment_date :: "datetime option"
  payment_interval :: json
  commitment_period :: json
  cost_gross :: json
  cost_net :: json
  cost_tax :: json
  short_description :: json

record contracts_report =
  contracts :: "contract list"
  active :: "contract option"

text \<open>One round of the \<^verbatim>\<open>for c in contracts_raw\<close> loop of \<^verbatim>\<open>fetch_contracts\<close>.\<close>

fun normalize_contract :: "pylib \<Rightarrow> json \<Rightarrow> error + contract" where
  "normalize_contract L (JObj c) =
     (case py_or (dget c ''Club'') (JObj []) of
        JObj club \<Rightarrow>
          (case py_or (dget c ''Cost'') (JObj []) of
             JObj cost \<Rightarrow>
               Inr \<lparr>contract_id = dget c ''Id'', contract_name = dget c ''Name'',
                    addons = py_or (dget c ''AddonsNames'') (JList []),
                    contract_club_id = dget club ''Id'', contract_club_name = dget club ''Name'',
                    start_date = parse_dt L (dget c ''StartDate''),
                    end_date = parse_dt L (dget c ''EndDate''),
                    commitment_date = parse_dt L (dget c ''CommitmentDate''),
                    next_payment_date = parse_dt L (dget c ''NextPaymentDate''),
                    payment_interval = dget c ''PaymentInterval'',
                    commitment_period = dget c ''CommitmentPeriod'',
                    cost_gross = dget cost ''Gross'', cost_net = dget cost ''Net'',
                    cost_tax = dget cost ''Tax'',
                    short_description = dget c ''ShortDescription''\<rparr>
           | _ \<Rightarrow> Inl AttributeError)
      | _ \<Rightarrow> Inl AttributeError)"
| "normalize_contract L _ = Inl AttributeError"

text \<open>What \<^verbatim>\<open>for c in x\<close> runs over: the items of a list, the characters of a string,
  the keys of a dictionary; any other value is not iterable.\<close>

fun iterate :: "json \<Rightarrow> error + json list" where
  "iterate (JList xs) = Inr xs"
| "iterate (JStr s) = Inr (map (\<lambda>ch. JStr [ch]) s)"
| "iterate (JObj d) = Inr (map (\<lambda>kv. JStr (fst kv)) d)"
| "iterate _ = Inl TypeError"

text \<open>The \<^verbatim>\<open>try\<close> body of \<^verbatim>\<open>fetch_contracts\<close> after \<^verbatim>\<open>resp.json()\<close>.\<close>

definition normalize_contracts :: "pylib \<Rightarrow> json \<Rightarrow> error + contracts_report" where
  "normalize_contracts L data =
     (case py_get (py_or data (JObj [])) ''Contracts'' of
        Inl e \<Rightarrow> Inl e
      | Inr raw \<Rightarrow>
          (case iterate (py_or raw (JList [])) of
             Inl e \<Rightarrow> Inl e
           | Inr contracts_raw \<Rightarrow>
               (case traverse (normalize_contract L) contracts_raw of
                  Inl e \<Rightarrow> Inl e
                | Inr cs \<Rightarrow>
                    Inr \<lparr>contracts = cs,
                         active = (if cs \<noteq> [] then Some (cs ! 0) else None)\<rparr>)))"

text \<open>\<^verbatim>\<open>ident.get("user_id") if ident else None\<close>.\<close>

fun ident_user_id :: "identity option \<Rightarrow> json" where
  "ident_user_id None = JNull"
| "ident_user_id (Some i) = user_id i"

text \<open>The request of \<^verbatim>\<open>fetch_contracts\<close>, with \<^verbatim>\<open>{"userId": user_id}\<close> as its body.\<close>

definition contracts_request :: "json \<Rightarrow> request" where
  "contracts_request user =
     \<lparr>http_method = POST, target = BASE_URL @ CONTRACTS_PATH,
      headers = [(''X-Hash'', ''#/Profile/Contract'')],
      body = Some (JObj [(''userId'', user)])\<rparr>"

definition fetch_contracts ::
  "pylib \<Rightarrow> server \<Rightarrow> request list \<Rightarrow> json \<Rightarrow> contracts_report \<times> request list" where
  "fetch_contracts L srv tr uid =
     (let looked = (if uid = JNull
                    then (let r = fetch_identity srv tr in (ident_user_id (fst r), snd r))
                    else (uid, tr));
          user = fst looked;
          tr1 = snd looked
      in if \<not> truthy user then (\<lparr>contracts = [], active = None\<rparr>, tr1)
         else
           (let rq = contracts_request user
            in (case srv tr1 rq of
                  TransportError \<Rightarrow> \<lparr>contracts = [], active = None\<rparr>
                | Response status_code js \<Rightarrow>
                    (if status_code \<noteq> 200 then \<lparr>contracts = [], active = None\<rparr>
                     else case js of
                       None \<Rightarrow> \<lparr>contracts = [], active = None\<rparr>
                     | Some data \<Rightarrow>
                         (case normalize_contracts L data of
                            Inl e \<Rightarrow> \<lparr>contracts = [], active = None\<rparr>
                          | Inr r \<Rightarrow> r)),
                tr1 @ [rq])))"

section \<open>The specification's wording of the shape normalizer\<close>

text \<open>
  The five-way decision order as the specification words it, kept apart from
  \<open>extract_items\<close>, which is the code: a list as it is; the first known key holding a list;
  a sectioned object (some named section is an object holding an \<^verbatim>\<open>Items\<close> list) gives
  the concatenation of the sections' lists; an object with a marker key is wrapped;
  anything else is none.
\<close>

definition spec_section :: "(string \<times> json) list \<Rightarrow> string \<Rightarrow> json list option" where
  "spec_section data name =
     (case dget data name of
        JObj sec \<Rightarrow> (case dget sec ''Items'' of JList xs \<Rightarrow> Some xs | _ \<Rightarrow> None)
      | _ \<Rightarrow> None)"

definition section_list :: "(string \<times> json) list \<Rightarrow> string \<Rightarrow> json list" where
  "section_list data name = (case spec_section data name of Some xs \<Rightarrow> xs | None \<Rightarrow> [])"

definition spec_extract_items :: "json \<Rightarrow> json list option" where
  "spec_extract_items payload =
     (case payload of
        JList xs \<Rightarrow> Some xs
      | JObj data \<Rightarrow>
          (case find (\<lambda>k. has_key data k \<and> is_list (dget data k))
                  [''Bookings'', ''Items'', ''Data'', ''Result'', ''results''] of
             Some k \<Rightarrow> Some (list_items (dget data k))
           | None \<Rightarrow>
               if \<exists>name \<in> set [''RecentItems'', ''FutureItems'', ''PastItems''].
                    spec_section data name \<noteq> None
               then Some (concat (map (section_list data)
                            [''RecentItems'', ''FutureItems'', ''PastItems'']))
               else if \<exists>k \<in> set [''Start'', ''StartDate'', ''StartTime'']. has_key data k
               then Some [JObj data]
               else None)
      | _ \<Rightarrow> None)"

section \<open>Vocabulary of the properties\<close>

text \<open>A response that is not a success: a transport failure or a status other than 200.\<close>

definition failed :: "response \<Rightarrow> bool" where
  "failed r = (case r of TransportError \<Rightarrow> True | Response status_code js \<Rightarrow> status_code \<noteq> 200)"

text \<open>The paths requested for one candidate, in order: the date-ranged variant first when
  the path is calendar-like, then the path itself.\<close>

definition attempts :: "clock \<Rightarrow> string \<Rightarrow> string list" where
  "attempts clk path = (if calendar_like path then [ranged_path clk path, path] else [path])"

section \<open>A library and inputs for the worked instances\<close>

text \<open>A library that reads two ISO strings (the start of the specification's end-to-end
  scenario and a date without zone) and prints integers in decimal; and one whose ISO
  and integer readers accept every string.\<close>

definition example_lib :: pylib where
  "example_lib =
     \<lparr>fromisoformat =
        (\<lambda>s. if s = ''2024-06-01T09:00:00+00:00''
             then Some \<lparr>micros = 1717232400000000, tzinfo = Some 0\<rparr>
             else if s = ''2020-01-31''
             then Some \<lparr>micros = 1580428800000000, tzinfo = None\<rparr>
             else None),
      int_of_str = (\<lambda>s. None),
      str_of = (\<lambda>v. case v of JInt i \<Rightarrow> str_int i | _ \<Rightarrow> [])\<rparr>"

definition eager_lib :: pylib where
  "eager_lib =
     \<lparr>fromisoformat = (\<lambda>s. Some \<lparr>micros = 0, tzinfo = None\<rparr>),
      int_of_str = (\<lambda>s. Some 0),
      str_of = (\<lambda>v. ''0'')\<rparr>"

text \<open>A client without override and one with a schedule-like override, the clock of one
  call, two raw bookings (one whose start does not parse), and portals that answer every
  request alike or by the path requested.\<close>

definition example_client :: client where
  "example_client = \<lparr>bookings_path_override = None, club_id = None\<rparr>"

definition override_client :: client where
  "override_client = \<lparr>bookings_path_override = Some ''/clientportal2/Custom/Schedule'', club_id = None\<rparr>"

definition example_clock :: clock where
  "example_clock = \<lparr>now_iso = ''2024-05-20T08:00:00'', horizon_iso = ''2024-06-19T08:00:00'',
                     date_str = ''2024-05-20''\<rparr>"

definition yoga_raw :: "(string \<times> json) list" where
  "yoga_raw = [(''StartTime'', JStr ''2024-06-01T09:00:00Z''), (''Title'', JStr ''Yoga'')]"

definition broken_raw :: "(string \<times> json) list" where
  "broken_raw = [(''StartTime'', JStr ''soon''), (''Title'', JStr ''Spin'')]"


definition third_path_server :: server where
  "third_path_server =
     (\<lambda>tr rq. if target rq = BASE_URL @ ''/clientportal2/Booking/GetFutureBookings''
              then Response 200 (Some (JList [JObj broken_raw, JObj yoga_raw]))
              else Response 404 None)"

definition down_server :: server where
  "down_server = (\<lambda>tr rq. Response 503 None)"

definition occupancy_server :: server where
  "occupancy_server = (\<lambda>tr rq. Response 200 (Some (JList
      [JObj [(''ClubName'', JStr ''Manchester''), (''UsersCountCurrentlyInClub'', JInt 41)],
       JObj [(''ClubName'', JStr ''Leeds''), (''UsersCountCurrentlyInClub'', JStr ''many'')],
       JObj [(''ClubName'', JStr ''York'')]])))"

definition anonymous_server :: server where
  "anonymous_server = (\<lambda>tr rq. Response 200 (Some (JObj [(''Member'', JNull)])))"

text \<open>Two raw contracts, the first already ended, their normal forms, and a portal that
  lists them in this order.\<close>

definition student_raw :: "(string \<times> json) list" where
  "student_raw = [(''Id'', JInt 1), (''Name'', JStr ''Student''), (''EndDate'', JStr ''2020-01-31'')]"

definition adult_raw :: "(string \<times> json) list" where
  "adult_raw = [(''Id'', JInt 2), (''Name'', JStr ''Adult''),
                (''StartDate'', JStr ''2024-06-01T09:00:00Z'')]"

definition student :: contract where
  "student =
     \<lparr>contract_id = JInt 1, contract_name = JStr ''Student'', addons = JList [],
      contract_club_id = JNull, contract_club_name = JNull,
      start_date = None, end_date = Some \<lparr>micros = 1580428800000000, tzinfo = Some 0\<rparr>,
      commitment_date = None, next_payment_date = None,
      payment_interval = JNull, commitment_period = JNull,
      cost_gross = JNull, cost_net = JNull, cost_tax = JNull, short_description = JNull\<rparr>"

definition adult :: contract where
  "adult =
     \<lparr>contract_id = JInt 2, contract_name = JStr ''Adult'', addons = JList [],
      contract_club_id = JNull, contract_club_name = JNull,
      start_date = Some \<lparr>micros = 1717232400000000, tzinfo = Some 0\<rparr>, end_date = None,
      commitment_date = None, next_payment_date = None,
      payment_interval = JNull, commitment_period = JNull,
      cost_gross = JNull, cost_net = JNull, cost_tax = JNull, short_description = JNull\<rparr>"

definition two_contracts_server :: server where
  "two_contracts_server =
     (\<lambda>tr rq. Response 200
        (Some (JObj [(''Contracts'', JList [JObj student_raw, JObj adult_raw])])))"

section \<open>The temporal parser: properties\<close>

text \<open>
  Claim C9. A falsy value (\<^verbatim>\<open>None\<close>, the integer 0, the empty string, \<^verbatim>\<open>False\<close>) makes
  \<^verbatim>\<open>_parse_dt\<close> return \<^verbatim>\<open>None\<close> whatever the ISO and the epoch readers would have
  made of it: the result does not depend on the library. In particular the epoch
  timestamp 0 gives \<^verbatim>\<open>None\<close>, not 1970-01-01T00:00:00Z.
\<close>

theorem parse_dt_falsy:
  "(\<not> truthy v \<longrightarrow> parse_dt L v = None)
   \<and> parse_dt L JNull = None \<and> parse_dt L (JInt 0) = None
   \<and> parse_dt L (JStr []) = None \<and> parse_dt L (JBool False) = None"
  by (simp add: parse_dt_def)

text \<open>The instance at the integer 0, with a library whose readers accept everything:
  the ISO reader would have answered and the epoch reading of 0 is the epoch itself.\<close>

theorem parse_dt_falsy_witness:
  "\<not> truthy (JInt 0) \<and> parse_dt eager_lib (JInt 0) = None
   \<and> fromisoformat eager_lib (replace_Z (py_str eager_lib (JInt 0))) \<noteq> None
   \<and> fromtimestamp_utc (of_int 0) = Some \<lparr>micros = 0, tzinfo = Some 0\<rparr>"
  using parse_dt_falsy [of "JInt 0" eager_lib]
  by (simp add: eager_lib_def fromtimestamp_utc_def)




section \<open>The booking mapper: properties\<close>

text \<open>Claim C10 as stated fails for a title that is truthy and not a string: the summary
  is the integer 42.\<close>

theorem booking_summary_not_string_counterexample:
  "normalize_booking example_lib (JObj [(''Title'', JInt 42)])
     = Inr \<lparr>summary = JInt 42, start = None, endt = None, location = JNull,
            description = None\<rparr>"
  by (simp add: booking_fields_def py_or_def dget_def parse_dt_def)

lemma summary_booking_fields:
  "summary (booking_fields L item)
     = py_or (dget item ''Title'') (py_or (dget item ''ClassName'')
         (py_or (dget item ''Name'') (JStr ''Booking'')))"
  by (simp add: booking_fields_def Let_def)

lemma start_booking_fields:
  "start (booking_fields L item)
     = parse_dt L (py_or (dget item ''StartTimeUtc'') (py_or (dget item ''StartTime'')
         (py_or (dget item ''Start'') (dget item ''StartDate''))))"
  by (simp add: booking_fields_def Let_def)

text \<open>
  Claim C10, amended. For every raw booking dictionary the summary is the first truthy
  value among the keys \<^verbatim>\<open>Title\<close>, \<^verbatim>\<open>ClassName\<close>, \<^verbatim>\<open>Name\<close>, of whatever type that value
  has, and the string \<^verbatim>\<open>Booking\<close> when none is truthy; it is always truthy, so never
  \<^verbatim>\<open>None\<close> and never the empty string.
\<close>

theorem booking_summary:
  assumes "normalize_booking L (JObj item) = Inr b"
  shows "summary b = (case find truthy (map (dget item) [''Title'', ''ClassName'', ''Name'']) of
                        Some v \<Rightarrow> v | None \<Rightarrow> JStr ''Booking'')
       \<and> truthy (summary b) \<and> summary b \<noteq> JNull \<and> summary b \<noteq> JStr []"
proof -
  have b: "b = booking_fields L item" using assms by simp
  have eq: "summary b = (case find truthy (map (dget item) [''Title'', ''ClassName'', ''Name'']) of
                        Some v \<Rightarrow> v | None \<Rightarrow> JStr ''Booking'')"
    unfolding b summary_booking_fields by (simp add: py_or_def)
  have t: "truthy (summary b)"
    unfolding b summary_booking_fields by (simp add: py_or_def)
  from t have "summary b \<noteq> JNull" "summary b \<noteq> JStr []" by auto
  with eq t show ?thesis by simp
qed

text \<open>An empty title is skipped for the class name, and the placeholder fills an empty
  dictionary.\<close>

theorem booking_summary_witness:
  "normalize_booking example_lib (JObj [(''ClassName'', JStr ''Yoga''), (''Title'', JStr [])])
     = Inr (booking_fields example_lib [(''ClassName'', JStr ''Yoga''), (''Title'', JStr [])])
   \<and> summary (booking_fields example_lib [(''ClassName'', JStr ''Yoga''), (''Title'', JStr [])])
       = JStr ''Yoga''
   \<and> summary (booking_fields example_lib []) = JStr ''Booking''"
proof -
  have h1: "normalize_booking example_lib (JObj [(''ClassName'', JStr ''Yoga''), (''Title'', JStr [])])
     = Inr (booking_fields example_lib [(''ClassName'', JStr ''Yoga''), (''Title'', JStr [])])"
    by simp
  have h2: "normalize_booking example_lib (JObj []) = Inr (booking_fields example_lib [])"
    by simp
  show ?thesis
    using booking_summary [OF h1] booking_summary [OF h2] h1
    by (simp add: dget_def)
qed

section \<open>The shape normalizer: properties\<close>

lemma first_list_key_find:
  "first_list_key data keys
     = map_option (\<lambda>k. list_items (dget data k))
         (find (\<lambda>k. has_key data k \<and> is_list (dget data k)) keys)"
  by (induction keys) simp_all

lemma section_items_concat:
  "section_items data sections = concat (map (section_list data) sections)"
proof (induction sections)
  case Nil
  show ?case by simp
next
  case (Cons s ss)
  have "(case dget data s of
           JObj sec \<Rightarrow> (if is_list (dget sec ''Items'') then list_items (dget sec ''Items'') else [])
         | _ \<Rightarrow> []) = section_list data s"
    by (simp add: section_list_def spec_section_def split: json.splits)
  with Cons show ?case by simp
qed

text \<open>Claim C5 as stated fails on a sectioned object all of whose sections are empty:
  the wording gives the empty concatenation, the code gives none.\<close>

theorem extract_items_sectioned_empty_counterexample:
  "spec_extract_items (JObj [(''FutureItems'', JObj [(''Items'', JList [])])]) = Some []
   \<and> extract_items (JObj [(''FutureItems'', JObj [(''Items'', JList [])])]) = None"
  by (simp add: spec_extract_items_def spec_section_def section_list_def dget_def has_key_def)

text \<open>
  Claim C5, amended. The normalizer follows the decision order with first match winning:
  a list as it is; the first of \<^verbatim>\<open>Bookings\<close>, \<^verbatim>\<open>Items\<close>, \<^verbatim>\<open>Data\<close>, \<^verbatim>\<open>Result\<close>,
  \<^verbatim>\<open>results\<close> that holds a list; the concatenation of the \<^verbatim>\<open>Items\<close> lists of
  \<^verbatim>\<open>RecentItems\<close>, \<^verbatim>\<open>FutureItems\<close>, \<^verbatim>\<open>PastItems\<close> in this order when that
  concatenation is not empty; the object wrapped when it has one of \<^verbatim>\<open>Start\<close>,
  \<^verbatim>\<open>StartDate\<close>, \<^verbatim>\<open>StartTime\<close>; none otherwise. It differs from the specification's
  wording only where that wording gives the empty sequence.
\<close>

theorem extract_items_decision_order:
  "extract_items payload =
     (case payload of
        JList xs \<Rightarrow> Some xs
      | JObj data \<Rightarrow>
          (case find (\<lambda>k. has_key data k \<and> is_list (dget data k))
                  [''Bookings'', ''Items'', ''Data'', ''Result'', ''results''] of
             Some k \<Rightarrow> Some (list_items (dget data k))
           | None \<Rightarrow>
               if concat (map (section_list data) [''RecentItems'', ''FutureItems'', ''PastItems''])
                    \<noteq> []
               then Some (concat (map (section_list data)
                            [''RecentItems'', ''FutureItems'', ''PastItems'']))
               else if \<exists>k \<in> set [''Start'', ''StartDate'', ''StartTime'']. has_key data k
               then Some [JObj data]
               else None)
      | _ \<Rightarrow> None)
   \<and> (extract_items payload \<noteq> spec_extract_items payload
        \<longrightarrow> spec_extract_items payload = Some [])"
proof (cases payload)
  case (JObj data)
  let ?keys = "[''Bookings'', ''Items'', ''Data'', ''Result'', ''results'']"
  let ?secs = "[''RecentItems'', ''FutureItems'', ''PastItems'']"
  have k: "first_list_key data ?keys
     = map_option (\<lambda>k. list_items (dget data k))
         (find (\<lambda>k. has_key data k \<and> is_list (dget data k)) ?keys)"
    by (rule first_list_key_find)
  have s: "section_items data ?secs = concat (map (section_list data) ?secs)"
    by (rule section_items_concat)
  have ne: "concat (map (section_list data) ?secs) \<noteq> []
              \<Longrightarrow> \<exists>name \<in> set ?secs. spec_section data name \<noteq> None"
    by (auto simp add: section_list_def split: option.splits)
  show ?thesis
  proof (cases "find (\<lambda>k. has_key data k \<and> is_list (dget data k)) ?keys")
    case None
    then have f: "first_list_key data ?keys = None" using k by simp
    show ?thesis
      unfolding JObj json.case extract_items.simps f option.case s Let_def
        spec_extract_items_def None
      using ne by auto
  next
    case (Some key)
    then have f: "first_list_key data ?keys = Some (list_items (dget data key))" using k by simp
    show ?thesis
      unfolding JObj json.case extract_items.simps f option.case spec_extract_items_def Some
      by simp
  qed
qed (simp_all add: spec_extract_items_def)

text \<open>One payload of each of the five shapes.\<close>

theorem extract_items_decision_order_witness:
  "extract_items (JList [JInt 1]) = Some [JInt 1]
   \<and> extract_items (JObj [(''Data'', JInt 0), (''Result'', JList [JInt 2])]) = Some [JInt 2]
   \<and> extract_items (JObj [(''PastItems'', JObj [(''Items'', JList [JInt 4])]),
                          (''RecentItems'', JObj [(''Items'', JList [JInt 3])])])
       = Some [JInt 3, JInt 4]
   \<and> extract_items (JObj [(''StartDate'', JNull)]) = Some [JObj [(''StartDate'', JNull)]]
   \<and> extract_items (JObj [(''Status'', JInt 1)]) = None"
  using extract_items_decision_order [of "JList [JInt 1]"]
    extract_items_decision_order [of "JObj [(''Data'', JInt 0), (''Result'', JList [JInt 2])]"]
    extract_items_decision_order [of "JObj [(''PastItems'', JObj [(''Items'', JList [JInt 4])]),
                          (''RecentItems'', JObj [(''Items'', JList [JInt 3])])]"]
    extract_items_decision_order [of "JObj [(''StartDate'', JNull)]"]
    extract_items_decision_order [of "JObj [(''Status'', JInt 1)]"]
  by (simp add: section_list_def spec_section_def dget_def has_key_def)

section \<open>The bookings operation: properties\<close>

lemma traverse_dicts:
  "traverse (normalize_booking L) (map JObj ds) = Inr (map (booking_fields L) ds)"
  by (induction ds) simp_all

lemma normalize_all_dicts:
  "normalize_all L (map JObj ds) = Inr (filter (\<lambda>b. start b \<noteq> None) (map (booking_fields L) ds))"
  by (simp add: normalize_all_def traverse_dicts)



lemma bookings_loop_first_hit:
  assumes "\<forall>rq. srv tr rq = Response 200 (Some (JList items))" and "items \<noteq> []"
  shows "fst (bookings_loop L srv c clk (p # ps) tr) = normalize_all L items"
  using assms by (simp add: Let_def try_endpoint_def)

lemma candidate_paths_nonempty: "\<exists>p ps. candidate_paths c = p # ps"
  by (simp add: candidate_paths_def BOOKINGS_CANDIDATE_PATHS_def split: option.splits)

text \<open>
  Claim C1. No fetch operation raises to its caller, whatever the portal answers. The
  code breaks this in \<^verbatim>\<open>fetch_upcoming_bookings\<close>: \<^verbatim>\<open>_normalize_booking\<close> runs outside
  any \<^verbatim>\<open>try\<close>, so when the portal answers 200 with the JSON list \<^verbatim>\<open>[1]\<close> the
  AttributeError of \<^verbatim>\<open>item.get\<close> on the integer leaves the operation, for every library,
  client, clock and history. The loops of \<^verbatim>\<open>fetch_members_in_clubs\<close> and
  \<^verbatim>\<open>fetch_contracts\<close> over raw items stand inside their \<^verbatim>\<open>try\<close>.
\<close>

theorem fetch_upcoming_bookings_raises:
  "fst (fetch_upcoming_bookings L (\<lambda>tr rq. Response 200 (Some (JList [JInt 1]))) c clk tr)
     = Inl AttributeError"
proof -
  obtain p ps where ps: "candidate_paths c = p # ps"
    using candidate_paths_nonempty by blast
  have "fst (bookings_loop L (\<lambda>tr rq. Response 200 (Some (JList [JInt 1]))) c clk (p # ps) tr)
          = normalize_all L [JInt 1]"
    by (rule bookings_loop_first_hit) simp_all
  then show ?thesis
    by (simp add: fetch_upcoming_bookings_def ps normalize_all_def)
qed



lemma target_endpoint_request: "target (endpoint_request u h) = BASE_URL @ u"
  by (simp add: endpoint_request_def)

lemma try_endpoint_trace: "snd (try_endpoint srv tr path h) = tr @ [endpoint_request path h]"
  by (simp add: try_endpoint_def Let_def)

lemma try_endpoint_failed:
  "failed (srv tr (endpoint_request path h))
     \<Longrightarrow> try_endpoint srv tr path h = (None, tr @ [endpoint_request path h])"
  by (auto simp add: try_endpoint_def failed_def Let_def split: response.splits)

lemma try_endpoint_list:
  "srv tr (endpoint_request path h) = Response 200 (Some (JList items))
     \<Longrightarrow> try_endpoint srv tr path h = (Some items, tr @ [endpoint_request path h])"
  by (simp add: try_endpoint_def Let_def)

lemma loop_step_failed:
  assumes "\<forall>h rq. target rq \<in> set (map ((@) BASE_URL) (attempts clk p)) \<longrightarrow> failed (srv h rq)"
  shows "bookings_loop L srv c clk (p # ps) tr
           = bookings_loop L srv c clk ps
               (tr @ map (\<lambda>u. endpoint_request u (extra_headers_for c clk p)) (attempts clk p))"
proof -
  let ?H = "extra_headers_for c clk p"
  have f: "failed (srv h (endpoint_request u ?H))" if "u \<in> set (attempts clk p)" for h u
    using assms that by (simp add: target_endpoint_request)
  show ?thesis
  proof (cases "calendar_like p")
    case True
    have r: "try_endpoint srv tr (ranged_path clk p) ?H
               = (None, tr @ [endpoint_request (ranged_path clk p) ?H])"
      by (rule try_endpoint_failed) (simp add: f attempts_def True)
    have q: "try_endpoint srv (tr @ [endpoint_request (ranged_path clk p) ?H]) p ?H
               = (None, tr @ [endpoint_request (ranged_path clk p) ?H] @ [endpoint_request p ?H])"
      using try_endpoint_failed [of srv "tr @ [endpoint_request (ranged_path clk p) ?H]" p ?H]
      by (simp add: f attempts_def True)
    show ?thesis by (simp add: True Let_def r q attempts_def)
  next
    case False
    have q: "try_endpoint srv tr p ?H = (None, tr @ [endpoint_request p ?H])"
      by (rule try_endpoint_failed) (simp add: f attempts_def False)
    show ?thesis by (simp add: False Let_def q attempts_def)
  qed
qed

lemma loop_step_hit:
  assumes "\<forall>h rq. target rq \<in> set (map ((@) BASE_URL) (attempts clk p))
              \<longrightarrow> srv h rq = Response 200 (Some (JList items))"
    and "items \<noteq> []"
  shows "bookings_loop L srv c clk (p # ps) tr
           = (normalize_all L items,
              tr @ [endpoint_request (hd (attempts clk p)) (extra_headers_for c clk p)])"
proof -
  let ?H = "extra_headers_for c clk p"
  have r: "try_endpoint srv tr (hd (attempts clk p)) ?H
             = (Some items, tr @ [endpoint_request (hd (attempts clk p)) ?H])"
    by (rule try_endpoint_list) (simp add: assms target_endpoint_request attempts_def)
  show ?thesis
    using r assms(2) by (cases "calendar_like p") (simp_all add: Let_def attempts_def)
qed

lemma loop_trace_extends: "\<exists>ext. snd (bookings_loop L srv c clk paths tr) = tr @ ext"
proof (induction paths arbitrary: tr)
  case Nil
  show ?case by simp
next
  case (Cons p ps)
  define ranged where "ranged = (if calendar_like p
                    then try_endpoint srv tr (ranged_path clk p) (extra_headers_for c clk p)
                    else (None, tr))"
  define plain where "plain = try_endpoint srv (snd ranged) p (extra_headers_for c clk p)"
  have step: "bookings_loop L srv c clk (p # ps) tr =
    (if bookings_of (fst ranged) \<noteq> []
         then (normalize_all L (bookings_of (fst ranged)), snd ranged)
         else if bookings_of (fst plain) \<noteq> []
                  then (normalize_all L (bookings_of (fst plain)), snd plain)
                  else bookings_loop L srv c clk ps (snd plain))"
    by (simp add: Let_def ranged_def plain_def)
  have r: "\<exists>e. snd ranged = tr @ e"
    by (simp add: ranged_def try_endpoint_trace)
  then obtain e where e: "snd ranged = tr @ e" by blast
  have pl: "snd plain = tr @ e @ [endpoint_request p (extra_headers_for c clk p)]"
    by (simp add: plain_def try_endpoint_trace e)
  from Cons.IH [of "snd plain"] obtain ext
    where "snd (bookings_loop L srv c clk ps (snd plain)) = snd plain @ ext" by blast
  with step e pl show ?case by auto
qed

lemma loop_first_request:
  "\<exists>later. snd (bookings_loop L srv c clk (p # ps) tr)
     = tr @ endpoint_request (hd (attempts clk p)) (extra_headers_for c clk p) # later"
proof -
  let ?H = "extra_headers_for c clk p"
  define ranged where "ranged = (if calendar_like p
                    then try_endpoint srv tr (ranged_path clk p) ?H else (None, tr))"
  define plain where "plain = try_endpoint srv (snd ranged) p ?H"
  have step: "bookings_loop L srv c clk (p # ps) tr =
    (if bookings_of (fst ranged) \<noteq> []
         then (normalize_all L (bookings_of (fst ranged)), snd ranged)
         else if bookings_of (fst plain) \<noteq> []
                  then (normalize_all L (bookings_of (fst plain)), snd plain)
                  else bookings_loop L srv c clk ps (snd plain))"
    by (simp add: Let_def ranged_def plain_def)
  obtain ext where ext: "snd (bookings_loop L srv c clk ps (snd plain)) = snd plain @ ext"
    using loop_trace_extends by blast
  show ?thesis
  proof (cases "calendar_like p")
    case True
    then have r: "snd ranged = tr @ [endpoint_request (hd (attempts clk p)) ?H]"
      by (simp add: ranged_def try_endpoint_trace attempts_def)
    have pl: "snd plain = tr @ endpoint_request (hd (attempts clk p)) ?H # [endpoint_request p ?H]"
      by (simp add: plain_def try_endpoint_trace r)
    from step r pl ext show ?thesis by auto
  next
    case False
    then have r: "snd ranged = tr" "fst ranged = None" by (simp_all add: ranged_def)
    have pl: "snd plain = tr @ [endpoint_request (hd (attempts clk p)) ?H]"
      by (simp add: plain_def try_endpoint_trace r attempts_def False)
    from step r pl ext show ?thesis by auto
  qed
qed

lemma example_attempts:
  "attempts example_clock ''/clientportal2/MyCalendar/MyCalendar/GetCalendar''
     = [''/clientportal2/MyCalendar/MyCalendar/GetCalendar?start=2024-05-20T08:00:00&end=2024-06-19T08:00:00'',
        ''/clientportal2/MyCalendar/MyCalendar/GetCalendar'']"
  "attempts example_clock ''/clientportal2/Booking/GetUpcomingBookings''
     = [''/clientportal2/Booking/GetUpcomingBookings'']"
  "attempts example_clock ''/clientportal2/Booking/GetFutureBookings''
     = [''/clientportal2/Booking/GetFutureBookings'']"
  by (simp_all add: attempts_def calendar_like_def lower_def lower_char_def ranged_path_def
      example_clock_def)

lemma example_failed:
  "\<forall>h rq. target rq \<in> set (map ((@) BASE_URL)
                (attempts example_clock ''/clientportal2/MyCalendar/MyCalendar/GetCalendar''
                 @ attempts example_clock ''/clientportal2/Booking/GetUpcomingBookings''))
      \<longrightarrow> failed (third_path_server h rq)"
  unfolding example_attempts by (auto simp add: third_path_server_def failed_def)

lemma example_hit:
  "\<forall>h rq. target rq \<in> set (map ((@) BASE_URL)
                (attempts example_clock ''/clientportal2/Booking/GetFutureBookings''))
      \<longrightarrow> third_path_server h rq
           = Response 200 (Some (JList (map JObj [broken_raw, yoga_raw])))"
  unfolding example_attempts by (simp add: third_path_server_def)

lemma example_candidates:
  "candidate_paths example_client
     = ''/clientportal2/MyCalendar/MyCalendar/GetCalendar''
       # ''/clientportal2/Booking/GetUpcomingBookings''
       # ''/clientportal2/Booking/GetFutureBookings''
       # [''/clientportal2/Bookings/GetUpcoming'', ''/clientportal2/ClassBooking/GetUpcoming'',
          ''/clientportal2/Calendar/GetMyBookings'']"
  by (simp add: candidate_paths_def example_client_def BOOKINGS_CANDIDATE_PATHS_def)

text \<open>
  Claim C6 as stated fails where a failing candidate is calendar-like: with the built-in
  list the first candidate is requested twice, once with the date range and once
  without, before the second candidate is tried.
\<close>

theorem first_candidate_requested_twice_counterexample:
  "map target
     (snd (fetch_upcoming_bookings example_lib third_path_server example_client example_clock []))
   = [BASE_URL @ ''/clientportal2/MyCalendar/MyCalendar/GetCalendar''
        @ ''?start=2024-05-20T08:00:00&end=2024-06-19T08:00:00'',
      BASE_URL @ ''/clientportal2/MyCalendar/MyCalendar/GetCalendar'',
      BASE_URL @ ''/clientportal2/Booking/GetUpcomingBookings'',
      BASE_URL @ ''/clientportal2/Booking/GetFutureBookings'']"
proof -
  let ?p1 = "''/clientportal2/MyCalendar/MyCalendar/GetCalendar''"
  let ?p2 = "''/clientportal2/Booking/GetUpcomingBookings''"
  let ?p3 = "''/clientportal2/Booking/GetFutureBookings''"
  let ?rest = "[''/clientportal2/Bookings/GetUpcoming'', ''/clientportal2/ClassBooking/GetUpcoming'',
          ''/clientportal2/Calendar/GetMyBookings'']"
  let ?R = "\<lambda>q. map (\<lambda>u. endpoint_request u (extra_headers_for example_client example_clock q))
                  (attempts example_clock q)"
  have f1: "\<forall>h rq. target rq \<in> set (map ((@) BASE_URL) (attempts example_clock ?p1))
              \<longrightarrow> failed (third_path_server h rq)"
    and f2: "\<forall>h rq. target rq \<in> set (map ((@) BASE_URL) (attempts example_clock ?p2))
              \<longrightarrow> failed (third_path_server h rq)"
    using example_failed by auto
  have ne: "map JObj [broken_raw, yoga_raw] \<noteq> []" by simp
  have "bookings_loop example_lib third_path_server example_client example_clock
          (?p1 # ?p2 # ?p3 # ?rest) []
        = bookings_loop example_lib third_path_server example_client example_clock
            (?p2 # ?p3 # ?rest) ([] @ ?R ?p1)"
    by (rule loop_step_failed [OF f1])
  also have "\<dots> = bookings_loop example_lib third_path_server example_client example_clock
            (?p3 # ?rest) (([] @ ?R ?p1) @ ?R ?p2)"
    by (rule loop_step_failed [OF f2])
  also have "\<dots> = (normalize_all example_lib (map JObj [broken_raw, yoga_raw]),
                  (([] @ ?R ?p1) @ ?R ?p2)
                    @ [endpoint_request (hd (attempts example_clock ?p3))
                         (extra_headers_for example_client example_clock ?p3)])"
    by (rule loop_step_hit [OF example_hit ne])
  finally have run: "snd (fetch_upcoming_bookings example_lib third_path_server example_client
                       example_clock [])
      = (([] @ ?R ?p1) @ ?R ?p2)
          @ [endpoint_request (hd (attempts example_clock ?p3))
               (extra_headers_for example_client example_clock ?p3)]"
    by (simp only: fetch_upcoming_bookings_def example_candidates snd_conv)
  show ?thesis
    unfolding run example_attempts by (simp add: target_endpoint_request)
qed

text \<open>
  Claim C6, amended. When the candidate list starts with three paths of which the first
  two fail on every request and the third answers 200 with a non-empty list of raw
  records, \<^verbatim>\<open>fetch_upcoming_bookings\<close> returns that list normalized (records without a
  start left out), and the requests it sends are, in order and nothing else: for each of
  the first two candidates its date-ranged variant when the path is calendar-like and
  then the path itself, each once, and the first variant of the third candidate; when
  the variants of the first two candidates are pairwise different no URL is requested
  twice. An override that is present (a non-empty string) is the head of the candidate
  list, ahead of the built-in paths, and the first request goes to it.
\<close>

theorem fetch_upcoming_bookings_fallback:
  "(candidate_paths c = p1 # p2 # p3 # rest
      \<and> (\<forall>h rq. target rq \<in> set (map ((@) BASE_URL) (attempts clk p1 @ attempts clk p2))
            \<longrightarrow> failed (srv h rq))
      \<and> (\<forall>h rq. target rq \<in> set (map ((@) BASE_URL) (attempts clk p3))
            \<longrightarrow> srv h rq = Response 200 (Some (JList (map JObj ds))))
      \<and> ds \<noteq> []
     \<longrightarrow> fst (fetch_upcoming_bookings L srv c clk tr)
           = Inr (filter (\<lambda>b. start b \<noteq> None) (map (booking_fields L) ds))
       \<and> map target (snd (fetch_upcoming_bookings L srv c clk tr))
           = map target tr
             @ map ((@) BASE_URL) (attempts clk p1 @ attempts clk p2 @ [hd (attempts clk p3)])
       \<and> (distinct (attempts clk p1 @ attempts clk p2)
            \<longrightarrow> distinct (drop (length tr)
                  (map target (snd (fetch_upcoming_bookings L srv c clk tr))))))
   \<and> (bookings_path_override c = Some p \<and> p \<noteq> []
        \<longrightarrow> candidate_paths c = p # BOOKINGS_CANDIDATE_PATHS
          \<and> (\<exists>later. map target (snd (fetch_upcoming_bookings L srv c clk tr))
                = map target tr @ (BASE_URL @ hd (attempts clk p)) # later))"
proof (intro conjI impI)
  assume ov: "bookings_path_override c = Some p \<and> p \<noteq> []"
  then show cp: "candidate_paths c = p # BOOKINGS_CANDIDATE_PATHS"
    by (simp add: candidate_paths_def)
  obtain later where "snd (bookings_loop L srv c clk (p # BOOKINGS_CANDIDATE_PATHS) tr)
     = tr @ endpoint_request (hd (attempts clk p)) (extra_headers_for c clk p) # later"
    using loop_first_request by blast
  then have "map target (snd (fetch_upcoming_bookings L srv c clk tr))
        = map target tr @ (BASE_URL @ hd (attempts clk p)) # map target later"
    by (simp add: fetch_upcoming_bookings_def cp target_endpoint_request)
  then show "\<exists>later. map target (snd (fetch_upcoming_bookings L srv c clk tr))
                = map target tr @ (BASE_URL @ hd (attempts clk p)) # later"
    by blast
next
  assume h: "candidate_paths c = p1 # p2 # p3 # rest
      \<and> (\<forall>h rq. target rq \<in> set (map ((@) BASE_URL) (attempts clk p1 @ attempts clk p2))
            \<longrightarrow> failed (srv h rq))
      \<and> (\<forall>h rq. target rq \<in> set (map ((@) BASE_URL) (attempts clk p3))
            \<longrightarrow> srv h rq = Response 200 (Some (JList (map JObj ds))))
      \<and> ds \<noteq> []"
  let ?R = "\<lambda>q. map (\<lambda>u. endpoint_request u (extra_headers_for c clk q)) (attempts clk q)"
  have f1: "\<forall>h rq. target rq \<in> set (map ((@) BASE_URL) (attempts clk p1)) \<longrightarrow> failed (srv h rq)"
    and f2: "\<forall>h rq. target rq \<in> set (map ((@) BASE_URL) (attempts clk p2)) \<longrightarrow> failed (srv h rq)"
    using h by auto
  have h3: "\<forall>h rq. target rq \<in> set (map ((@) BASE_URL) (attempts clk p3))
            \<longrightarrow> srv h rq = Response 200 (Some (JList (map JObj ds)))"
    using h by blast
  have ne: "map JObj ds \<noteq> []" using h by simp
  have cp: "candidate_paths c = p1 # p2 # p3 # rest" using h by blast
  have "bookings_loop L srv c clk (p1 # p2 # p3 # rest) tr
          = bookings_loop L srv c clk (p2 # p3 # rest) (tr @ ?R p1)"
    by (rule loop_step_failed [OF f1])
  also have "\<dots> = bookings_loop L srv c clk (p3 # rest) ((tr @ ?R p1) @ ?R p2)"
    by (rule loop_step_failed [OF f2])
  also have "\<dots> = (normalize_all L (map JObj ds),
                  ((tr @ ?R p1) @ ?R p2)
                    @ [endpoint_request (hd (attempts clk p3)) (extra_headers_for c clk p3)])"
    by (rule loop_step_hit [OF h3 ne])
  finally have run: "fetch_upcoming_bookings L srv c clk tr
               = (normalize_all L (map JObj ds),
                  ((tr @ ?R p1) @ ?R p2)
                    @ [endpoint_request (hd (attempts clk p3)) (extra_headers_for c clk p3)])"
    by (simp only: fetch_upcoming_bookings_def cp)
  show "fst (fetch_upcoming_bookings L srv c clk tr)
           = Inr (filter (\<lambda>b. start b \<noteq> None) (map (booking_fields L) ds))"
    by (simp add: run normalize_all_dicts)
  have tg: "map target (?R q) = map ((@) BASE_URL) (attempts clk q)" for q
    by (simp add: target_endpoint_request comp_def)
  show tr: "map target (snd (fetch_upcoming_bookings L srv c clk tr))
           = map target tr
             @ map ((@) BASE_URL) (attempts clk p1 @ attempts clk p2 @ [hd (attempts clk p3)])"
    by (simp add: run tg target_endpoint_request comp_def)
  show "distinct (drop (length tr) (map target (snd (fetch_upcoming_bookings L srv c clk tr))))"
    if d: "distinct (attempts clk p1 @ attempts clk p2)"
  proof -
    have hd3: "hd (attempts clk p3) \<in> set (attempts clk p3)"
      by (simp add: attempts_def)
    have notin: "hd (attempts clk p3) \<notin> set (attempts clk p1 @ attempts clk p2)"
    proof
      assume a: "hd (attempts clk p3) \<in> set (attempts clk p1 @ attempts clk p2)"
      let ?rq = "endpoint_request (hd (attempts clk p3)) []"
      have "target ?rq \<in> set (map ((@) BASE_URL) (attempts clk p1 @ attempts clk p2))"
        using a by (auto simp add: target_endpoint_request)
      with h have "failed (srv [] ?rq)" by blast
      moreover have "target ?rq \<in> set (map ((@) BASE_URL) (attempts clk p3))"
        using hd3 by (auto simp add: target_endpoint_request)
      with h3 have "srv [] ?rq = Response 200 (Some (JList (map JObj ds)))" by blast
      ultimately show False by (simp add: failed_def)
    qed
    have "distinct (attempts clk p1 @ attempts clk p2 @ [hd (attempts clk p3)])"
      using d notin by auto
    then have "distinct (map ((@) BASE_URL)
                 (attempts clk p1 @ attempts clk p2 @ [hd (attempts clk p3)]))"
      by (simp only: distinct_map) (simp add: inj_on_def)
    then show ?thesis by (simp only: tr) simp
  qed
qed

text \<open>The built-in list, with a portal that answers only the third path; and an override,
  which is requested first.\<close>

theorem fetch_upcoming_bookings_fallback_witness:
  "fst (fetch_upcoming_bookings example_lib third_path_server example_client example_clock [])
     = Inr [booking_fields example_lib yoga_raw]
   \<and> map target
        (snd (fetch_upcoming_bookings example_lib third_path_server example_client example_clock []))
       = map ((@) BASE_URL)
          [''/clientportal2/MyCalendar/MyCalendar/GetCalendar?start=2024-05-20T08:00:00&end=2024-06-19T08:00:00'',
           ''/clientportal2/MyCalendar/MyCalendar/GetCalendar'',
           ''/clientportal2/Booking/GetUpcomingBookings'',
           ''/clientportal2/Booking/GetFutureBookings'']
   \<and> candidate_paths override_client = ''/clientportal2/Custom/Schedule'' # BOOKINGS_CANDIDATE_PATHS
   \<and> (\<exists>later. map target
          (snd (fetch_upcoming_bookings example_lib third_path_server override_client example_clock []))
        = (BASE_URL @ ''/clientportal2/Custom/Schedule?start=2024-05-20T08:00:00&end=2024-06-19T08:00:00'')
          # later)"
proof -
  let ?p1 = "''/clientportal2/MyCalendar/MyCalendar/GetCalendar''"
  let ?p2 = "''/clientportal2/Booking/GetUpcomingBookings''"
  let ?p3 = "''/clientportal2/Booking/GetFutureBookings''"
  let ?rest = "[''/clientportal2/Bookings/GetUpcoming'', ''/clientportal2/ClassBooking/GetUpcoming'',
                ''/clientportal2/Calendar/GetMyBookings'']"
  let ?po = "''/clientportal2/Custom/Schedule''"
  have a1: "attempts example_clock ?p1
     = [''/clientportal2/MyCalendar/MyCalendar/GetCalendar?start=2024-05-20T08:00:00&end=2024-06-19T08:00:00'', ?p1]"
    by (simp add: attempts_def calendar_like_def lower_def lower_char_def ranged_path_def
        example_clock_def)
  have a2: "attempts example_clock ?p2 = [?p2]"
    by (simp add: attempts_def calendar_like_def lower_def lower_char_def)
  have a3: "attempts example_clock ?p3 = [?p3]"
    by (simp add: attempts_def calendar_like_def lower_def lower_char_def)
  have ao: "attempts example_clock ?po
     = [''/clientportal2/Custom/Schedule?start=2024-05-20T08:00:00&end=2024-06-19T08:00:00'', ?po]"
    by (simp add: attempts_def calendar_like_def lower_def lower_char_def ranged_path_def
        example_clock_def)
  have cp: "candidate_paths example_client = ?p1 # ?p2 # ?p3 # ?rest"
    by (simp add: candidate_paths_def example_client_def BOOKINGS_CANDIDATE_PATHS_def)
  have f: "\<forall>h rq. target rq \<in> set (map ((@) BASE_URL)
                       (attempts example_clock ?p1 @ attempts example_clock ?p2))
             \<longrightarrow> failed (third_path_server h rq)"
    unfolding a1 a2 by (auto simp add: third_path_server_def failed_def)
  have hit: "\<forall>h rq. target rq \<in> set (map ((@) BASE_URL) (attempts example_clock ?p3))
             \<longrightarrow> third_path_server h rq
                  = Response 200 (Some (JList (map JObj [broken_raw, yoga_raw])))"
    unfolding a3 by (simp add: third_path_server_def)
  have sb: "start (booking_fields example_lib broken_raw) = None"
    by (simp add: start_booking_fields broken_raw_def py_or_def dget_def parse_dt_def example_lib_def)
  have sy: "start (booking_fields example_lib yoga_raw) \<noteq> None"
    by (simp add: start_booking_fields yoga_raw_def py_or_def dget_def parse_dt_def example_lib_def)
  have ov: "bookings_path_override override_client = Some ?po \<and> ?po \<noteq> []"
    by (simp add: override_client_def)
  show ?thesis
    using fetch_upcoming_bookings_fallback [where c = example_client and ?p1.0 = ?p1
        and ?p2.0 = ?p2 and ?p3.0 = ?p3 and rest = ?rest and clk = example_clock
        and srv = third_path_server and ds = "[broken_raw, yoga_raw]" and L = example_lib
        and tr = "[]" and p = ?po]
      fetch_upcoming_bookings_fallback [where c = override_client and clk = example_clock
        and srv = third_path_server and L = example_lib and tr = "[]" and p = ?po]
      cp f hit sb sy ov
    unfolding a1 a2 a3 ao
    by simp
qed

section \<open>Club occupancy: properties\<close>

lemma occupancy_loop_total:
  "occupancy_loop L cs acc tot = Inr (cl, t) \<Longrightarrow> tot = sum_list (map members acc)
     \<Longrightarrow> t = sum_list (map members cl)"
  by (induction L cs acc tot rule: occupancy_loop.induct) simp_all

lemma occupancy_loop_dicts:
  "occupancy_loop L (map JObj ds) acc tot
     = Inr (acc @ map (club_fields L) ds, tot + sum_list (map (members \<circ> club_fields L) ds))"
  by (induction ds arbitrary: acc tot) simp_all

lemma members_club_fields: "members (club_fields L c) = count_of L (raw_count c)"
  by (simp add: club_fields_def Let_def)

text \<open>
  Claim C2. Whatever the portal answers, the report of \<^verbatim>\<open>fetch_members_in_clubs\<close> has
  \<^verbatim>\<open>total\<close> equal to the sum of the \<^verbatim>\<open>members\<close> of its clubs; a transport failure, a
  status other than 200 or a body that is not JSON gives \<^verbatim>\<open>{clubs: [], total: 0}\<close>; a list
  of raw club dictionaries gives one club for each, in order; and a count that is missing
  or that \<^verbatim>\<open>int()\<close> rejects counts as 0.
\<close>

theorem fetch_members_in_clubs_total:
  "total (fst (fetch_members_in_clubs L srv tr))
     = sum_list (map members (clubs (fst (fetch_members_in_clubs L srv tr))))
   \<and> (failed (srv tr occupancy_request) \<or> (\<exists>sc. srv tr occupancy_request = Response sc None)
        \<longrightarrow> fst (fetch_members_in_clubs L srv tr) = \<lparr>clubs = [], total = 0\<rparr>)
   \<and> (srv tr occupancy_request = Response 200 (Some (JList (map JObj ds)))
        \<longrightarrow> clubs (fst (fetch_members_in_clubs L srv tr)) = map (club_fields L) ds)
   \<and> (raw_count c = JNull \<or> py_int L (raw_count c) = None \<longrightarrow> members (club_fields L c) = 0)"
proof (intro conjI impI)
  show "total (fst (fetch_members_in_clubs L srv tr))
     = sum_list (map members (clubs (fst (fetch_members_in_clubs L srv tr))))"
  proof (cases "srv tr occupancy_request")
    case TransportError
    then show ?thesis by (simp add: fetch_members_in_clubs_def)
  next
    case (Response sc js)
    show ?thesis
    proof (cases "sc = 200 \<and> js \<noteq> None")
      case False
      with Response show ?thesis by (auto simp add: fetch_members_in_clubs_def)
    next
      case True
      then obtain data where js: "js = Some data" and sc: "sc = 200" by auto
      show ?thesis
      proof (cases "occupancy_loop L (clubs_raw_of data) [] 0")
        case (Inl e)
        with Response js sc show ?thesis by (simp add: fetch_members_in_clubs_def)
      next
        case (Inr r)
        obtain cl t where r: "r = (cl, t)" by (cases r)
        from Inr r have "t = sum_list (map members cl)"
          using occupancy_loop_total [of L "clubs_raw_of data" "[]" 0 cl t] by simp
        with Response js sc Inr r show ?thesis by (simp add: fetch_members_in_clubs_def)
      qed
    qed
  qed
next
  assume "failed (srv tr occupancy_request) \<or> (\<exists>sc. srv tr occupancy_request = Response sc None)"
  then show "fst (fetch_members_in_clubs L srv tr) = \<lparr>clubs = [], total = 0\<rparr>"
    by (auto simp add: fetch_members_in_clubs_def failed_def split: response.splits)
next
  assume "srv tr occupancy_request = Response 200 (Some (JList (map JObj ds)))"
  then show "clubs (fst (fetch_members_in_clubs L srv tr)) = map (club_fields L) ds"
    by (simp add: fetch_members_in_clubs_def clubs_raw_of_def occupancy_loop_dicts)
next
  assume "raw_count c = JNull \<or> py_int L (raw_count c) = None"
  then show "members (club_fields L c) = 0"
    by (auto simp add: members_club_fields count_of_def)
qed

text \<open>A portal that is down, and one that lists three clubs, one with a count that is
  not a number and one without a count.\<close>

theorem fetch_members_in_clubs_total_witness:
  "failed (down_server [] occupancy_request)
   \<and> fst (fetch_members_in_clubs example_lib down_server []) = \<lparr>clubs = [], total = 0\<rparr>
   \<and> map members (clubs (fst (fetch_members_in_clubs example_lib occupancy_server [])))
       = [41, 0, 0]
   \<and> total (fst (fetch_members_in_clubs example_lib occupancy_server [])) = 41
   \<and> py_int example_lib
        (raw_count [(''ClubName'', JStr ''Leeds''), (''UsersCountCurrentlyInClub'', JStr ''many'')])
       = None"
proof -
  let ?ds = "[[(''ClubName'', JStr ''Manchester''), (''UsersCountCurrentlyInClub'', JInt 41)],
       [(''ClubName'', JStr ''Leeds''), (''UsersCountCurrentlyInClub'', JStr ''many'')],
       [(''ClubName'', JStr ''York'')]]"
  have f: "failed (down_server [] occupancy_request)"
    by (simp add: failed_def down_server_def)
  have r: "occupancy_server [] occupancy_request = Response 200 (Some (JList (map JObj ?ds)))"
    by (simp add: occupancy_server_def)
  have u: "py_int example_lib
        (raw_count [(''ClubName'', JStr ''Leeds''), (''UsersCountCurrentlyInClub'', JStr ''many'')])
       = None"
    by (simp add: raw_count_def py_or_def dget_def example_lib_def)
  have m: "map (members \<circ> club_fields example_lib) ?ds = [41, 0, 0]"
    by (simp add: members_club_fields raw_count_def py_or_def dget_def example_lib_def count_of_def)
  show ?thesis
    using fetch_members_in_clubs_total [of example_lib down_server "[]" ?ds]
      fetch_members_in_clubs_total [of example_lib occupancy_server "[]" ?ds
        "[(''ClubName'', JStr ''Leeds''), (''UsersCountCurrentlyInClub'', JStr ''many'')]"]
      f r u m
    by simp
qed

section \<open>Contracts: properties\<close>

lemma fetch_identity_trace: "snd (fetch_identity srv tr) = tr @ [identity_request]"
  by (simp add: fetch_identity_def Let_def)

text \<open>
  Claim C7. Called without a user id, when the identity lookup yields none (no identity,
  or one whose user id is falsy), \<^verbatim>\<open>fetch_contracts\<close> returns
  \<^verbatim>\<open>{contracts: [], active: None}\<close> as a normal result, and the only request it has sent
  is the identity request, which is never a contracts request.
\<close>

theorem fetch_contracts_missing_user_id:
  assumes "\<not> truthy (ident_user_id (fst (fetch_identity srv tr)))"
  shows "fetch_contracts L srv tr JNull
           = (\<lparr>contracts = [], active = None\<rparr>, tr @ [identity_request])
       \<and> (\<forall>user. identity_request \<noteq> contracts_request user)"
proof -
  have "\<forall>user. identity_request \<noteq> contracts_request user"
    by (simp add: identity_request_def contracts_request_def)
  moreover have "fetch_contracts L srv tr JNull
           = (\<lparr>contracts = [], active = None\<rparr>, tr @ [identity_request])"
    using assms by (simp add: fetch_contracts_def Let_def fetch_identity_trace)
  ultimately show ?thesis by simp
qed

text \<open>An identity without member, and a portal that is down.\<close>

theorem fetch_contracts_missing_user_id_witness:
  "\<not> truthy (ident_user_id (fst (fetch_identity anonymous_server [])))
   \<and> fetch_contracts example_lib anonymous_server [] JNull
       = (\<lparr>contracts = [], active = None\<rparr>, [identity_request])
   \<and> \<not> truthy (ident_user_id (fst (fetch_identity down_server [])))
   \<and> fetch_contracts example_lib down_server [] JNull
       = (\<lparr>contracts = [], active = None\<rparr>, [identity_request])"
proof -
  have a: "\<not> truthy (ident_user_id (fst (fetch_identity anonymous_server [])))"
    by (simp add: fetch_identity_def anonymous_server_def normalize_identity_def py_or_def dget_def)
  have d: "\<not> truthy (ident_user_id (fst (fetch_identity down_server [])))"
    by (simp add: fetch_identity_def down_server_def)
  show ?thesis
    using fetch_contracts_missing_user_id [OF a, of example_lib]
      fetch_contracts_missing_user_id [OF d, of example_lib] a d
    by simp
qed

lemma normalize_contracts_active:
  "normalize_contracts L data = Inr r
     \<Longrightarrow> active r = (case contracts r of [] \<Rightarrow> None | c # cs \<Rightarrow> Some c)"
  by (auto simp add: normalize_contracts_def split: sum.splits list.splits)

text \<open>
  Claim C8. Whatever the portal answers, \<^verbatim>\<open>active\<close> is the first element of
  \<^verbatim>\<open>contracts\<close> when there is one and absent otherwise; and for a contracts list whose
  entries all normalize, the active contract is the normal form of the first raw entry,
  whatever the dates of any entry.
\<close>

theorem fetch_contracts_active_first:
  "active (fst (fetch_contracts L srv tr uid))
     = (case contracts (fst (fetch_contracts L srv tr uid)) of [] \<Rightarrow> None | c # cs \<Rightarrow> Some c)
   \<and> (normalize_contract L (JObj c) = Inr k \<and> traverse (normalize_contract L) raw = Inr ks
        \<longrightarrow> normalize_contracts L (JObj [(''Contracts'', JList (JObj c # raw))])
             = Inr \<lparr>contracts = k # ks, active = Some k\<rparr>)"
proof (intro conjI impI)
  show "active (fst (fetch_contracts L srv tr uid))
     = (case contracts (fst (fetch_contracts L srv tr uid)) of [] \<Rightarrow> None | c # cs \<Rightarrow> Some c)"
    by (auto simp add: fetch_contracts_def Let_def normalize_contracts_active
        split: response.splits option.splits sum.splits)
next
  assume "normalize_contract L (JObj c) = Inr k \<and> traverse (normalize_contract L) raw = Inr ks"
  then show "normalize_contracts L (JObj [(''Contracts'', JList (JObj c # raw))])
             = Inr \<lparr>contracts = k # ks, active = Some k\<rparr>"
    by (simp add: normalize_contracts_def py_or_def dget_def)
qed

text \<open>The first contract listed has ended and the second is running: the first is the
  active one.\<close>

theorem fetch_contracts_active_first_witness:
  "normalize_contract example_lib (JObj student_raw) = Inr student
   \<and> traverse (normalize_contract example_lib) [JObj adult_raw] = Inr [adult]
   \<and> fst (fetch_contracts example_lib two_contracts_server [] (JInt 7))
       = \<lparr>contracts = [student, adult], active = Some student\<rparr>"
proof -
  have h1: "normalize_contract example_lib (JObj student_raw) = Inr student"
    by (simp add: student_raw_def student_def py_or_def dget_def parse_dt_def example_lib_def)
  have h2: "traverse (normalize_contract example_lib) [JObj adult_raw] = Inr [adult]"
    by (simp add: adult_raw_def adult_def py_or_def dget_def parse_dt_def example_lib_def)
  have run: "fst (fetch_contracts example_lib two_contracts_server [] (JInt 7))
       = (case normalize_contracts example_lib
                 (JObj [(''Contracts'', JList [JObj student_raw, JObj adult_raw])]) of
            Inl e \<Rightarrow> \<lparr>contracts = [], active = None\<rparr> | Inr r \<Rightarrow> r)"
    by (simp add: fetch_contracts_def two_contracts_server_def Let_def)
  show ?thesis
    using fetch_contracts_active_first [of example_lib two_contracts_server "[]" "JInt 7"
        student_raw student "[JObj adult_raw]" "[adult]"] h1 h2 run
    by simp
qed

end
